theory Spec2Isabelle
  imports Main "HOL-Library.Word" "HOL-Library.Char_ord" "HOL-Library.List_Lexorder"
begin

unbundle bit_operations_syntax

section \<open>Savegame components of the AGS engine (Engine/game/savegame_components.cpp)\<close>

text \<open>
  The development follows the C++ source function by function. Integers of the source
  keep their width: \<open>int32_t\<close> and \<open>uint32_t\<close> are \<open>32 word\<close> (compared with
  \<open><s\<close> where the source compares signed values and with \<open><\<close> where it compares
  unsigned ones), \<open>soff_t\<close> stream offsets are mathematical integers (a stream
  is far shorter than \<open>2 ^ 63\<close> bytes, so no offset arithmetic wraps).
\<close>

subsection \<open>Error values\<close>

text \<open>
  \<open>String::FromFormat(fmt, args...)\<close> is kept unevaluated, as the format string and
  the list of its arguments: no claim depends on how \<open>printf\<close> prints a number.
\<close>

datatype fmt_arg = ArgS string | ArgD int | ArgU nat

type_synonym text_t = "string \<times> fmt_arg list"

definition FromFormat :: "string \<Rightarrow> fmt_arg list \<Rightarrow> text_t" where
  "FromFormat f args = (f, args)"

datatype SavegameErrorType =
    kSvgErr_InconsistentFormat
  | kSvgErr_UnsupportedComponent
  | kSvgErr_UnsupportedComponentVersion
  | kSvgErr_ComponentListOpeningTagFormat
  | kSvgErr_ComponentListClosingTagMissing
  | kSvgErr_ComponentOpeningTagFormat
  | kSvgErr_ComponentClosingTagFormat
  | kSvgErr_ComponentSizeMismatch
  | kSvgErr_ComponentSerialization
  | kSvgErr_ComponentUnserialization
  | kSvgErr_IncompatibleEngine
  | kSvgErr_GameContentAssertion
  | kSvgErr_GameContentAssert_RequireClearReload
  | kSvgErr_GameObjectInitFailed

datatype SavegameError =
  SavegameError (ErrType: SavegameErrorType) (ErrText: text_t) (InnerError: "SavegameError option")

text \<open>
  \<open>HSaveError\<close> is a handle that is either empty (\<open>HSaveError::None()\<close>, also the
  default-constructed value) or holds an error. Its conversion to \<open>bool\<close> is true
  exactly for the empty handle: every caller in the file returns early on \<open>if (!err)\<close>
  and \<open>ReadAll\<close> and \<open>WriteAllCommon\<close> wrap the error as the cause of a new one
  under \<open>if (!err)\<close>. So \<open>if (err)\<close> of the source is \<open>err = None\<close> here and
  \<open>if (!err)\<close> is \<open>err \<noteq> None\<close>.
\<close>

type_synonym HSaveError = "SavegameError option"

definition new_SavegameError :: "SavegameErrorType \<Rightarrow> text_t \<Rightarrow> HSaveError" where
  "new_SavegameError k t = Some (SavegameError k t None)"

definition new_SavegameError0 :: "SavegameErrorType \<Rightarrow> HSaveError" where
  "new_SavegameError0 k = Some (SavegameError k ([], []) None)"

definition ErrKind :: "HSaveError \<Rightarrow> SavegameErrorType option" where
  "ErrKind e = map_option ErrType e"

subsection \<open>Restoration flags\<close>

text \<open>
  Modelled from the spec: the enumerators of \<open>SaveRestorationFlags\<close> are declared in
  game/savegame.h, which is not among the sources. The spec (section 3) describes the
  value as a bitmask of independent permission and result bits, so a mask is modelled
  as the set of the bits that are set in it: \<open>(flags & bit) == 0\<close> is
  \<open>bit \<notin> flags\<close> and \<open>flags | bit\<close> is \<open>insert bit flags\<close>.
\<close>

datatype SaveRestorationFlag =
    kSaveRestore_ClearData
  | kSaveRestore_AllowMismatchExtra
  | kSaveRestore_AllowMismatchLess
  | kSaveRestore_ExtraDataInSave
  | kSaveRestore_MissingDataInSave

type_synonym SaveRestorationFlags = "SaveRestorationFlag set"

subsection \<open>Helper assertion functions\<close>

text \<open>
  The helpers return \<open>bool\<close> and assign the error through the reference parameter
  \<open>err\<close> only when they fail; the model takes the incoming \<open>err\<close> and returns the
  outgoing one next to the result. \<open>Debug::Printf\<close> only logs and is left out.
\<close>

definition AssertCompatLimit :: "HSaveError \<Rightarrow> 32 word \<Rightarrow> 32 word \<Rightarrow> string \<Rightarrow> bool \<times> HSaveError" where
  "AssertCompatLimit err count max_count content_name =
     (if max_count <s count
      then (False, new_SavegameError kSvgErr_IncompatibleEngine
              (FromFormat ''Incompatible number of %s (count: %d, max: %d).''
                 [ArgS content_name, ArgD (sint count), ArgD (sint max_count)]))
      else (True, err))"

definition HandleGameContentMismatch ::
  "HSaveError \<Rightarrow> 32 word \<Rightarrow> 32 word \<Rightarrow> text_t \<Rightarrow> SaveRestorationFlags
     \<Rightarrow> bool \<times> HSaveError \<times> SaveRestorationFlags" where
  "HandleGameContentMismatch err new_val original_val error_text restore_flags =
     (if (new_val > original_val \<and> kSaveRestore_AllowMismatchExtra \<notin> restore_flags) \<or>
         (new_val < original_val \<and> kSaveRestore_AllowMismatchLess \<notin> restore_flags)
      then (False, new_SavegameError kSvgErr_GameContentAssertion error_text, restore_flags)
      else if new_val > original_val
      then (True, err, insert kSaveRestore_ExtraDataInSave restore_flags)
      else (let restore_flags' = insert kSaveRestore_MissingDataInSave restore_flags in
            if kSaveRestore_ClearData \<notin> restore_flags'
            then (False, new_SavegameError0 kSvgErr_GameContentAssert_RequireClearReload, restore_flags')
            else (True, err, restore_flags')))"

definition HandleExtraGameComponent :: "string \<Rightarrow> string \<Rightarrow> bool \<times> HSaveError" where
  "HandleExtraGameComponent content_name obj_name =
     (False, new_SavegameError kSvgErr_GameContentAssertion
        (FromFormat ''Extra %s found in save that does not exist in the game: %s.''
           [ArgS content_name, ArgS obj_name]))"

definition HandleMissingGameComponent :: "string \<Rightarrow> string \<Rightarrow> bool \<times> HSaveError" where
  "HandleMissingGameComponent content_name obj_name =
     (False, new_SavegameError kSvgErr_GameContentAssertion
        (FromFormat ''Save is missing a %s that exists in the game: %s.''
           [ArgS content_name, ArgS obj_name]))"

text \<open>
  \<open>AssertGameContent\<close> also stores the saved count in \<open>record_count\<close>; the result is
  (return value, \<open>err\<close>, \<open>restore_flags\<close>, \<open>record_count\<close>).
\<close>

definition AssertGameContent ::
  "HSaveError \<Rightarrow> 32 word \<Rightarrow> 32 word \<Rightarrow> string \<Rightarrow> SaveRestorationFlags
     \<Rightarrow> bool \<times> HSaveError \<times> SaveRestorationFlags \<times> 32 word" where
  "AssertGameContent err new_val original_val content_name restore_flags =
     (if new_val = original_val then (True, err, restore_flags, new_val)
      else (let error_text = FromFormat ''Mismatching number of %s (game: %u, save: %u).''
                               [ArgS content_name, ArgU (unat original_val), ArgU (unat new_val)];
                (r, err', restore_flags') =
                   HandleGameContentMismatch err new_val original_val error_text restore_flags
            in (r, err', restore_flags', new_val)))"

definition AssertGameObjectContent ::
  "HSaveError \<Rightarrow> 32 word \<Rightarrow> 32 word \<Rightarrow> string \<Rightarrow> string \<Rightarrow> 32 word \<Rightarrow> SaveRestorationFlags
     \<Rightarrow> bool \<times> HSaveError \<times> SaveRestorationFlags \<times> 32 word" where
  "AssertGameObjectContent err new_val original_val content_name obj_type obj_id restore_flags =
     (if new_val = original_val then (True, err, restore_flags, new_val)
      else (let error_text = FromFormat ''Mismatching number of %s, %s #%u (game: %u, save: %u).''
                               [ArgS content_name, ArgS obj_type, ArgU (unat obj_id),
                                ArgU (unat original_val), ArgU (unat new_val)];
                (r, err', restore_flags') =
                   HandleGameContentMismatch err new_val original_val error_text restore_flags
            in (r, err', restore_flags', new_val)))"

definition AssertGameObjectContent2 ::
  "HSaveError \<Rightarrow> 32 word \<Rightarrow> 32 word \<Rightarrow> string \<Rightarrow> string \<Rightarrow> 32 word \<Rightarrow> string \<Rightarrow> 32 word
     \<Rightarrow> SaveRestorationFlags \<Rightarrow> bool \<times> HSaveError \<times> SaveRestorationFlags \<times> 32 word" where
  "AssertGameObjectContent2 err new_val original_val content_name obj1_type obj1_id obj2_type obj2_id
       restore_flags =
     (if new_val = original_val then (True, err, restore_flags, new_val)
      else (let error_text = FromFormat ''Mismatching number of %s, %s #%u, %s #%u (game: %u, save: %u).''
                               [ArgS content_name, ArgS obj1_type, ArgU (unat obj1_id),
                                ArgS obj2_type, ArgU (unat obj2_id),
                                ArgU (unat original_val), ArgU (unat new_val)];
                (r, err', restore_flags') =
                   HandleGameContentMismatch err new_val original_val error_text restore_flags
            in (r, err', restore_flags', new_val)))"

subsection \<open>Streams\<close>

text \<open>
  Modelled from the spec: class \<open>Stream\<close> (util/stream.h) is not among the sources.
  The spec treats it as a seekable sequence of bytes with a cursor (sections 4.1, 6 and
  9). A stream is the list of its bytes (a \<open>char\<close> is one byte) and the cursor
  position. Integers are little-endian; a read that reaches the end of the stream
  delivers the bytes that are there and leaves the missing high bytes zero;
  \<open>ReadByte\<close> at the end of the stream returns \<open>-1\<close>; \<open>Seek\<close> keeps the
  cursor inside the stream; \<open>Write\<close> overwrites at the cursor and extends the stream
  at its end.
\<close>

record Stream =
  sdata :: "char list"
  spos :: nat

datatype StreamSeek = kSeekBegin | kSeekCurrent | kSeekEnd

fun le_word :: "char list \<Rightarrow> 'a::len word" where
  "le_word [] = 0"
| "le_word (c # cs) = of_char c OR push_bit 8 (le_word cs)"

fun le_bytes :: "nat \<Rightarrow> 'a::len word \<Rightarrow> char list" where
  "le_bytes 0 w = []"
| "le_bytes (Suc n) w = char_of (uint w) # le_bytes n (drop_bit 8 w)"

definition EOS :: "Stream \<Rightarrow> bool" where
  "EOS s = (length (sdata s) \<le> spos s)"

definition GetPosition :: "Stream \<Rightarrow> int" where
  "GetPosition s = int (spos s)"

definition Seek :: "int \<Rightarrow> StreamSeek \<Rightarrow> Stream \<Rightarrow> Stream" where
  "Seek offset origin s =
     (let base = (case origin of kSeekBegin \<Rightarrow> 0 | kSeekCurrent \<Rightarrow> int (spos s)
                    | kSeekEnd \<Rightarrow> int (length (sdata s)));
          want_pos = base + offset
      in s\<lparr>spos := nat (min (max want_pos 0) (int (length (sdata s))))\<rparr>)"

definition Read :: "nat \<Rightarrow> Stream \<Rightarrow> char list \<times> Stream" where
  "Read n s = (let bs = take n (drop (spos s) (sdata s))
               in (bs, s\<lparr>spos := spos s + length bs\<rparr>))"

definition ReadByte :: "Stream \<Rightarrow> int \<times> Stream" where
  "ReadByte s = (if spos s < length (sdata s)
                 then (of_char (sdata s ! spos s), s\<lparr>spos := Suc (spos s)\<rparr>)
                 else (- 1, s))"

definition ReadInt8 :: "Stream \<Rightarrow> 8 word \<times> Stream" where
  "ReadInt8 s = (let (bs, s') = Read 1 s in (le_word bs, s'))"

definition ReadInt16 :: "Stream \<Rightarrow> 16 word \<times> Stream" where
  "ReadInt16 s = (let (bs, s') = Read 2 s in (le_word bs, s'))"

definition ReadInt32 :: "Stream \<Rightarrow> 32 word \<times> Stream" where
  "ReadInt32 s = (let (bs, s') = Read 4 s in (le_word bs, s'))"

definition ReadInt64 :: "Stream \<Rightarrow> 64 word \<times> Stream" where
  "ReadInt64 s = (let (bs, s') = Read 8 s in (le_word bs, s'))"

definition Write :: "char list \<Rightarrow> Stream \<Rightarrow> Stream" where
  "Write bs s = s\<lparr>sdata := take (spos s) (sdata s) @ bs @ drop (spos s + length bs) (sdata s),
                  spos := spos s + length bs\<rparr>"

definition WriteInt32 :: "32 word \<Rightarrow> Stream \<Rightarrow> Stream" where
  "WriteInt32 v s = Write (le_bytes 4 v) s"

definition WriteInt64 :: "64 word \<Rightarrow> Stream \<Rightarrow> Stream" where
  "WriteInt64 v s = Write (le_bytes 8 v) s"

subsection \<open>Component tags\<close>


definition WriteFormatTag :: "Stream \<Rightarrow> string \<Rightarrow> bool \<Rightarrow> Stream" where
  "WriteFormatTag out tag open =
     (let full_tag = (if open then ''<'' @ tag @ ''>'' else ''</'' @ tag @ ''>'')
      in Write full_tag out)"

text \<open>
  The loop of \<open>ReadFormatTag\<close>: bytes are appended to the tag until \<open>>\<close> or the end
  of the stream. (\<open>String::AppendChar\<close> is taken to append the byte it is given.)
\<close>

function ReadFormatTag_loop :: "Stream \<Rightarrow> string \<Rightarrow> bool \<times> string \<times> Stream" where
  "ReadFormatTag_loop inp tag =
     (if \<not> EOS inp
      then (let c = char_of (fst (ReadByte inp)); inp' = snd (ReadByte inp)
            in if c = CHR ''>'' then (True, tag, inp')
               else ReadFormatTag_loop inp' (tag @ [c]))
      else (False, tag, inp))"
  by pat_completeness auto
termination
  by (relation "measure (\<lambda>(inp, tag). length (sdata inp) - spos inp)")
     (auto simp add: EOS_def ReadByte_def)

declare ReadFormatTag_loop.simps [simp del]

text \<open>Result: (return value, \<open>tag\<close>, stream). The tag is a reference parameter.\<close>

definition ReadFormatTag :: "Stream \<Rightarrow> string \<Rightarrow> bool \<Rightarrow> bool \<times> string \<times> Stream" where
  "ReadFormatTag inp tag open =
     (let (b1, inp1) = ReadByte inp in
      if b1 \<noteq> of_char CHR ''<'' then (False, tag, inp1)
      else if \<not> open \<and> fst (ReadByte inp1) \<noteq> of_char CHR ''/'' then (False, tag, snd (ReadByte inp1))
      else ReadFormatTag_loop (if open then inp1 else snd (ReadByte inp1)) [])"

definition AssertFormatTag :: "Stream \<Rightarrow> string \<Rightarrow> bool \<Rightarrow> bool \<times> Stream" where
  "AssertFormatTag inp tag open =
     (let (r, read_tag, inp') = ReadFormatTag inp [] open
      in if \<not> r then (False, inp') else (read_tag = tag, inp'))"

definition AssertFormatTagStrict :: "HSaveError \<Rightarrow> Stream \<Rightarrow> string \<Rightarrow> bool \<Rightarrow> bool \<times> HSaveError \<times> Stream" where
  "AssertFormatTagStrict err inp tag open =
     (let (r, read_tag, inp') = ReadFormatTag inp [] open
      in if \<not> r \<or> read_tag \<noteq> tag
         then (False, new_SavegameError kSvgErr_InconsistentFormat
                        (FromFormat ''Mismatching tag: %s.'' [ArgS tag]), inp')
         else (True, err, inp'))"

subsection \<open>The component handler registry\<close>

text \<open>
  A handler acts on the engine state that \<open>PreservedParams\<close>, \<open>RestoredData\<close> and
  the global game objects make up; the registry and the orchestrator do not look into
  it, so it is a type parameter \<open>'st\<close>. \<open>Unserialize\<close> may be a null pointer
  (\<open>None\<close>). \<open>Selection\<close> masks are kept as the 32-bit values they are.
\<close>

record 'st ComponentHandler =
  Name :: string
  Version :: "32 word"
  LowestVersion :: "32 word"
  Selection :: "32 word"
  Serialize :: "Stream \<Rightarrow> HSaveError \<times> Stream"
  Unserialize :: "(Stream \<Rightarrow> 32 word \<Rightarrow> int \<Rightarrow> 'st \<Rightarrow> HSaveError \<times> Stream \<times> 'st) option"

text \<open>
  \<open>std::multimap\<close>: the entries are kept sorted by key, and \<open>insert\<close> puts a new
  entry after the entries whose key is not greater (at the upper bound), so entries
  with equal keys stay in insertion order. \<open>equal_range\<close> is the run of entries from
  the lower bound to the upper bound of the key. Keys are compared as \<open>String\<close>
  compares them, byte by byte.
\<close>

fun multimap_insert :: "'k::linorder \<times> 'v \<Rightarrow> ('k \<times> 'v) list \<Rightarrow> ('k \<times> 'v) list" where
  "multimap_insert kv [] = [kv]"
| "multimap_insert kv (x # xs) =
     (if fst kv < fst x then kv # x # xs else x # multimap_insert kv xs)"

definition equal_range :: "('k::linorder \<times> 'v) list \<Rightarrow> 'k \<Rightarrow> ('k \<times> 'v) list" where
  "equal_range m k = takeWhile (\<lambda>kv. \<not> k < fst kv) (dropWhile (\<lambda>kv. fst kv < k) m)"

text \<open>
  \<open>GenerateHandlersMap\<close> walks the array \<open>ComponentHandlers\<close> up to the entry with
  the empty name that ends it.
\<close>

fun GenerateHandlersMap_loop ::
  "'st ComponentHandler list \<Rightarrow> (string \<times> 'st ComponentHandler) list
     \<Rightarrow> (string \<times> 'st ComponentHandler) list" where
  "GenerateHandlersMap_loop [] m = m"
| "GenerateHandlersMap_loop (h # hs) m =
     (if Name h = [] then m else GenerateHandlersMap_loop hs (multimap_insert (Name h, h) m))"

definition GenerateHandlersMap ::
  "'st ComponentHandler list \<Rightarrow> (string \<times> 'st ComponentHandler) list" where
  "GenerateHandlersMap ComponentHandlers = GenerateHandlersMap_loop ComponentHandlers []"

text \<open>
  Modelled from the spec: \<open>SavegameVersion\<close> and \<open>kSvgVersion_Cmp_64bit\<close> are
  declared in game/savegame.h, which is not among the sources; the spec (section 6)
  says that streams from this version on use 64-bit lengths and older ones 32-bit
  lengths. Only the comparison with the stream's version is used.
\<close>

definition kSvgVersion_Cmp_64bit :: int where
  "kSvgVersion_Cmp_64bit = 10"

record 'st SvgCmpReadHelper =
  HlpVersion :: int
  ComponentSelection :: "32 word"
  Handlers :: "(string \<times> 'st ComponentHandler) list"

record ComponentInfo =
  InfoName :: string
  InfoVersion :: "32 word"
  Offset :: int
  DataOffset :: int
  DataSize :: int

definition ComponentInfo0 :: ComponentInfo where
  "ComponentInfo0 = \<lparr>InfoName = [], InfoVersion = - 1, Offset = 0, DataOffset = 0, DataSize = 0\<rparr>"

subsection \<open>Reading a component\<close>

text \<open>The loop that picks the first handler of the range that the selection mask enables.\<close>

fun FindHandler :: "(string \<times> 'st ComponentHandler) list \<Rightarrow> 32 word \<Rightarrow> 'st ComponentHandler option" where
  "FindHandler [] sel = None"
| "FindHandler (it # its) sel =
     (if Selection (snd it) AND sel \<noteq> 0 then Some (snd it) else FindHandler its sel)"

text \<open>
  \<open>ReadComponent\<close> up to the point where the payload has been consumed (the part
  before the comment "Test that we have reached an expected position in stream").
  \<open>Inl\<close> is an early return with an error; \<open>Inr\<close> carries on.
\<close>

definition ReadComponent_data ::
  "Stream \<Rightarrow> 'st SvgCmpReadHelper \<Rightarrow> 'st
     \<Rightarrow> (HSaveError \<times> ComponentInfo \<times> Stream \<times> 'st) + (ComponentInfo \<times> Stream \<times> 'st)" where
  "ReadComponent_data inp hlp st =
     (let info = ComponentInfo0\<lparr>Offset := GetPosition inp\<rparr>;
          (ok, name, inp1) = ReadFormatTag inp (InfoName info) True;
          info = info\<lparr>InfoName := name\<rparr>
      in if \<not> ok then Inl (new_SavegameError0 kSvgErr_ComponentOpeningTagFormat, info, inp1, st)
      else
        (let (ver, inp2) = ReadInt32 inp1;
             (size, inp3) = (if HlpVersion hlp \<ge> kSvgVersion_Cmp_64bit
                             then (let (v, s) = ReadInt64 inp2 in (sint v, s))
                             else (let (v, s) = ReadInt32 inp2 in (sint v, s)));
             info = info\<lparr>InfoVersion := ver, DataSize := size, DataOffset := GetPosition inp3\<rparr>;
             it_hdr = equal_range (Handlers hlp) (InfoName info)
         in if it_hdr = [] then Inl (new_SavegameError0 kSvgErr_UnsupportedComponent, info, inp3, st)
         else
           (case FindHandler it_hdr (ComponentSelection hlp) of
              None \<Rightarrow> Inr (info, Seek (DataSize info) kSeekCurrent inp3, st)
            | Some handler \<Rightarrow>
                (case Unserialize handler of
                   None \<Rightarrow> Inr (info, Seek (DataSize info) kSeekCurrent inp3, st)
                 | Some unserialize \<Rightarrow>
                     if Version handler <s InfoVersion info \<or> InfoVersion info <s LowestVersion handler
                     then Inl (new_SavegameError kSvgErr_UnsupportedComponentVersion
                                 (FromFormat ''Saved version: %d, supported: %d - %d''
                                    [ArgD (sint (InfoVersion info)), ArgD (sint (LowestVersion handler)),
                                     ArgD (sint (Version handler))]), info, inp3, st)
                     else (let (err, inp4, st') =
                                  unserialize inp3 (InfoVersion info) (DataSize info) st
                           in if err \<noteq> None then Inl (err, info, inp4, st')
                              else Inr (info, inp4, st'))))))"

definition ReadComponent ::
  "Stream \<Rightarrow> 'st SvgCmpReadHelper \<Rightarrow> 'st \<Rightarrow> HSaveError \<times> ComponentInfo \<times> Stream \<times> 'st" where
  "ReadComponent inp hlp st =
     (case ReadComponent_data inp hlp st of
        Inl ret \<Rightarrow> ret
      | Inr (info, inp', st') \<Rightarrow>
          if GetPosition inp' - DataOffset info \<noteq> DataSize info
          then (new_SavegameError kSvgErr_ComponentSizeMismatch
                  (FromFormat ''Expected: %jd, actual: %jd''
                     [ArgD (DataSize info), ArgD (GetPosition inp' - DataOffset info)]), info, inp', st')
          else (let (ok, inp'') = AssertFormatTag inp' (InfoName info) False
                in if \<not> ok then (new_SavegameError0 kSvgErr_ComponentClosingTagFormat, info, inp'', st')
                   else (None, info, inp'', st')))"

subsection \<open>Reading the component list\<close>




subsection \<open>Writing a component\<close>

text \<open>
  \<open>WriteComponent\<close> up to the last \<open>Seek\<close>: the opening tag, the version, the
  length placeholder, the payload and the patched length. The result is the handler's
  error and the stream, with the cursor back at the end of the payload.
\<close>

definition WriteComponent_data :: "Stream \<Rightarrow> 'st ComponentHandler \<Rightarrow> HSaveError \<times> Stream" where
  "WriteComponent_data out hdlr =
     (let out1 = WriteFormatTag out (Name hdlr) True;
          out2 = WriteInt32 (Version hdlr) out1;
          ref_pos = GetPosition out2;
          out3 = WriteInt64 0 out2;
          (err, out4) = Serialize hdlr out3;
          end_pos = GetPosition out4;
          out5 = Seek ref_pos kSeekBegin out4;
          out6 = WriteInt64 (word_of_int (end_pos - ref_pos - 8)) out5;
          out7 = Seek end_pos kSeekBegin out6
      in (err, out7))"

definition WriteComponent :: "Stream \<Rightarrow> 'st ComponentHandler \<Rightarrow> HSaveError \<times> Stream" where
  "WriteComponent out hdlr =
     (let (err, out7) = WriteComponent_data out hdlr
      in if err = None then (err, WriteFormatTag out7 (Name hdlr) False)
         else (err, out7))"

subsection \<open>Sample inputs\<close>

text \<open>Small concrete streams and handlers, used to run the definitions.\<close>

definition ex_stream :: "char list \<Rightarrow> Stream" where
  "ex_stream bs = \<lparr>sdata = bs, spos = 0\<rparr>"

definition ex_handler_ok :: "unit ComponentHandler" where
  "ex_handler_ok = \<lparr>Name = ''X'', Version = 0, LowestVersion = 0, Selection = 1,
                     Serialize = Pair None, Unserialize = None\<rparr>"

definition ex_handler_fail :: "unit ComponentHandler" where
  "ex_handler_fail = \<lparr>Name = ''X'', Version = 0, LowestVersion = 0, Selection = 1,
                       Serialize = Pair (new_SavegameError0 kSvgErr_GameObjectInitFailed),
                       Unserialize = None\<rparr>"

definition ex_helper :: "unit SvgCmpReadHelper" where
  "ex_helper = \<lparr>HlpVersion = 10, ComponentSelection = 1,
                 Handlers = GenerateHandlersMap [ex_handler_ok]\<rparr>"

definition ex_component :: "char list" where
  "ex_component = ''<X>'' @ replicate 12 (CHR 0x00) @ ''</X>''"

definition ex_component_5 :: "char list" where
  "ex_component_5 = ''<X>'' @ replicate 4 (CHR 0x00) @ [CHR 0x05] @ replicate 7 (CHR 0x00) @ ''</X>''"

definition ex_handler_2 :: "unit ComponentHandler" where
  "ex_handler_2 = \<lparr>Name = ''X'', Version = 3, LowestVersion = 1, Selection = 2,
                     Serialize = Pair None,
                     Unserialize = Some (\<lambda>inp ver sz st. (None, Seek sz kSeekCurrent inp, st))\<rparr>"
definition ex_handler_3 :: "unit ComponentHandler" where
  "ex_handler_3 = \<lparr>Name = ''X'', Version = 0, LowestVersion = 0, Selection = 3,
                     Serialize = Pair None,
                     Unserialize = Some (\<lambda>inp ver sz st. (new_SavegameError0 kSvgErr_GameObjectInitFailed, inp, st))\<rparr>"


subsection \<open>Accesses to arrays and vectors\<close>

text \<open>
  An index outside a C++ array or \<open>std::vector\<close> has no defined behaviour. The model
  makes such an access a result of its own, with the array and the index, so that no
  theorem is about a value read or written out of range.
\<close>

datatype 'a behaviour = Defined 'a | OutOfRange string nat

definition elem :: "string \<Rightarrow> 'a list \<Rightarrow> nat \<Rightarrow> 'a behaviour" where
  "elem array xs i = (if i < length xs then Defined (xs ! i) else OutOfRange array i)"

text \<open>\<open>std::vector::resize\<close>: the first elements are kept, new elements are value-initialised.\<close>

definition resize :: "nat \<Rightarrow> 'a \<Rightarrow> 'a list \<Rightarrow> 'a list" where
  "resize n z xs = take n xs @ replicate (n - length xs) z"

text \<open>\<open>in->Read(&buf.front(), n)\<close>: the bytes that are left in the stream, up to \<open>n\<close>, overwrite the start of the buffer.\<close>

definition Read_into :: "nat \<Rightarrow> char list \<Rightarrow> Stream \<Rightarrow> char list \<times> Stream" where
  "Read_into n buf s = (let (bs, s') = Read n s in (bs @ drop (length bs) buf, s'))"

text \<open>
  Modelled from the spec: \<open>StrUtil::ReadString\<close> is not among the sources. A string is
  stored as its 32-bit length followed by its bytes (the "length-prefixed" layout of
  section 4.4).
\<close>

definition ReadString :: "Stream \<Rightarrow> string \<times> Stream" where
  "ReadString s = (let (len, s') = ReadInt32 s in if 0 < unat len then Read (unat len) s' else ([], s'))"

subsection \<open>Data restored from a save\<close>

text \<open>
  The fields of \<open>RestoredData\<close> (with those of its member \<open>DataCounts\<close>) and of
  \<open>PreservedParams\<close> that the modelled readers use. \<open>std::map<String, ScriptData>\<close>
  is a map from the module name to the bytes of the data segment.
\<close>

record ChannelInfo =
  ClipID :: "32 word"
  Pos :: "32 word"
  Priority :: "32 word"
  Repeat :: "32 word"
  Vol :: "32 word"
  VolAsPercent :: "32 word"
  Pan :: "32 word"
  Speed :: "32 word"
  XSource :: "32 word"
  YSource :: "32 word"
  MaxDist :: "32 word"

record RestoredData =
  RestoreFlags :: SaveRestorationFlags
  DataCounts_AudioClipTypes :: "32 word"
  DataCounts_Characters :: "32 word"
  DataCounts_Views :: "32 word"
  DataCounts_ViewLoops :: "32 word list"
  DataCounts_ViewFrames :: "32 word list"
  DataCounts_GlobalScriptDataSz :: "32 word"
  DataCounts_ScriptModules :: "32 word"
  DataCounts_ScriptDataSz :: "32 word list"
  DataCounts_Dummy :: "32 word"
  GlobalScript_Data :: "char list"
  ScriptModules :: "string \<rightharpoonup> char list"
  AudioChans :: "ChannelInfo list"
  DoAmbient :: "32 word list"

record PreservedParams =
  GlScDataSize :: nat
  ScriptModuleNames :: "string list"
  ScMdDataSize :: "nat list"

subsection \<open>Script modules\<close>

definition kScriptModulesSvgVersion_36200 :: "32 word" where
  "kScriptModulesSvgVersion_36200 = 3060200"

text \<open>
  The inner loop of \<open>ReadScriptModules\<close>: the index of the first game module of that
  name, or \<open>UINT32_MAX\<close>.
\<close>

fun FindModuleIndex :: "string \<Rightarrow> string list \<Rightarrow> nat \<Rightarrow> 32 word" where
  "FindModuleIndex module_name [] i = - 1"
| "FindModuleIndex module_name (n # ns) i =
     (if module_name = n then of_nat i else FindModuleIndex module_name ns (Suc i))"

text \<open>
  One round of the loop over the saved modules. \<open>Inl\<close> is \<open>return err\<close>, \<open>Inr\<close>
  carries on with the stream, the restored data and \<open>modules_match\<close>. The size is
  asserted against \<open>pp.ScMdDataSize[i]\<close>, where \<open>i\<close> is the counter of the outer loop
  (the inner loop's \<open>i\<close> is out of scope by then).
\<close>

definition ReadScriptModules_module ::
  "32 word \<Rightarrow> PreservedParams \<Rightarrow> nat \<Rightarrow> HSaveError \<Rightarrow> Stream \<Rightarrow> RestoredData \<Rightarrow> bool list
     \<Rightarrow> ((HSaveError \<times> Stream \<times> RestoredData) + (Stream \<times> RestoredData \<times> bool list)) behaviour" where
  "ReadScriptModules_module cmp_ver pp i err inp r_data modules_match =
     (case (if cmp_ver <s kScriptModulesSvgVersion_36200
            then (case elem ''pp.ScriptModuleNames'' (ScriptModuleNames pp) i of
                    Defined n \<Rightarrow> Defined (n, inp)
                  | OutOfRange a k \<Rightarrow> OutOfRange a k)
            else Defined (ReadString inp)) of
        OutOfRange a k \<Rightarrow> OutOfRange a k
      | Defined (module_name, inp1) \<Rightarrow>
          (let (data_len, inp2) = ReadInt32 inp1;
               game_module_index = FindModuleIndex module_name (ScriptModuleNames pp) 0;
               read_data = (\<lambda>r mm.
                  (let scdata = replicate (unat data_len) (CHR 0x00);
                       (scdata', inp3) = (if 0 < data_len then Read_into (unat data_len) scdata inp2
                                          else (scdata, inp2))
                   in Defined (Inr (inp3, r\<lparr>ScriptModules := (ScriptModules r)(module_name \<mapsto> scdata')\<rparr>, mm))))
           in if game_module_index < - 1
              then (case elem ''pp.ScMdDataSize'' (ScMdDataSize pp) i of
                      OutOfRange a k \<Rightarrow> OutOfRange a k
                    | Defined sz \<Rightarrow>
                        (case elem ''r_data.DataCounts.ScriptDataSz'' (DataCounts_ScriptDataSz r_data) i of
                           OutOfRange a k \<Rightarrow> OutOfRange a k
                         | Defined _ \<Rightarrow>
                             (let (ok, err', flags', cnt) =
                                    AssertGameObjectContent err data_len (of_nat sz)
                                      ''script module data'' ''module'' (of_nat i) (RestoreFlags r_data);
                                  r1 = r_data\<lparr>RestoreFlags := flags',
                                         DataCounts_ScriptDataSz := (DataCounts_ScriptDataSz r_data)[i := cnt]\<rparr>
                              in if \<not> ok then Defined (Inl (err', inp2, r1))
                                 else (case elem ''modules_match'' modules_match (unat game_module_index) of
                                         OutOfRange a k \<Rightarrow> OutOfRange a k
                                       | Defined _ \<Rightarrow>
                                           read_data r1 (modules_match[unat game_module_index := True])))))
              else (let (ok, err') = HandleExtraGameComponent ''script module'' module_name
                    in if \<not> ok then Defined (Inl (err', inp2, r_data))
                       else read_data r_data modules_match)))"

function ReadScriptModules_loop ::
  "32 word \<Rightarrow> PreservedParams \<Rightarrow> nat \<Rightarrow> nat \<Rightarrow> HSaveError \<Rightarrow> Stream \<Rightarrow> RestoredData \<Rightarrow> bool list
     \<Rightarrow> ((HSaveError \<times> Stream \<times> RestoredData) + (Stream \<times> RestoredData \<times> bool list)) behaviour" where
  "ReadScriptModules_loop cmp_ver pp modules_read i err inp r_data modules_match =
     (if i < modules_read
      then (case ReadScriptModules_module cmp_ver pp i err inp r_data modules_match of
              OutOfRange a k \<Rightarrow> OutOfRange a k
            | Defined (Inl ret) \<Rightarrow> Defined (Inl ret)
            | Defined (Inr (inp', r_data', modules_match')) \<Rightarrow>
                ReadScriptModules_loop cmp_ver pp modules_read (Suc i) err inp' r_data' modules_match')
      else Defined (Inr (inp, r_data, modules_match)))"
  by pat_completeness auto
termination
  by (relation "measure (\<lambda>(cmp_ver, pp, modules_read, i, err, inp, r_data, modules_match). modules_read - i)")
     auto

declare ReadScriptModules_loop.simps [simp del]

text \<open>The last loop: every module of the game must have been matched.\<close>

function ReadScriptModules_missing :: "PreservedParams \<Rightarrow> bool list \<Rightarrow> nat \<Rightarrow> HSaveError \<Rightarrow> HSaveError behaviour" where
  "ReadScriptModules_missing pp modules_match i err =
     (if i < length modules_match
      then (if \<not> modules_match ! i
            then (case elem ''pp.ScriptModuleNames'' (ScriptModuleNames pp) i of
                    OutOfRange a k \<Rightarrow> OutOfRange a k
                  | Defined n \<Rightarrow>
                      (let (ok, err') = HandleMissingGameComponent ''script module'' n
                       in if \<not> ok then Defined err'
                          else ReadScriptModules_missing pp modules_match (Suc i) err))
            else ReadScriptModules_missing pp modules_match (Suc i) err)
      else Defined err)"
  by pat_completeness auto
termination
  by (relation "measure (\<lambda>(pp, modules_match, i, err). length modules_match - i)") auto

declare ReadScriptModules_missing.simps [simp del]

definition ReadScriptModules ::
  "Stream \<Rightarrow> 32 word \<Rightarrow> PreservedParams \<Rightarrow> nat \<Rightarrow> RestoredData
     \<Rightarrow> (HSaveError \<times> Stream \<times> RestoredData) behaviour" where
  "ReadScriptModules inp cmp_ver pp numScriptModules r_data =
     (let err = None;
          (data_len, inp1) = ReadInt32 inp;
          (ok, err1, flags1, cnt1) =
             AssertGameContent err data_len (of_nat (GlScDataSize pp)) ''global script data''
               (RestoreFlags r_data);
          r1 = r_data\<lparr>RestoreFlags := flags1, DataCounts_GlobalScriptDataSz := cnt1\<rparr>
      in if \<not> ok then Defined (err1, inp1, r1)
         else
           (let buf = resize (unat data_len) (CHR 0x00) (GlobalScript_Data r1);
                (buf', inp2) = (if 0 < data_len then Read_into (unat data_len) buf inp1 else (buf, inp1));
                r2 = r1\<lparr>GlobalScript_Data := buf'\<rparr>;
                (modules_read, inp3) = ReadInt32 inp2;
                (ok, err2, flags2, cnt2) =
                   AssertGameContent err1 modules_read (of_nat numScriptModules) ''Script Modules''
                     (RestoreFlags r2);
                r3 = r2\<lparr>RestoreFlags := flags2, DataCounts_ScriptModules := cnt2\<rparr>
            in if \<not> ok then Defined (err2, inp3, r3)
               else
                 (let modules_match = replicate (length (ScriptModuleNames pp)) False;
                      r4 = r3\<lparr>DataCounts_ScriptDataSz :=
                                  resize (unat modules_read) 0 (DataCounts_ScriptDataSz r3)\<rparr>
                  in case ReadScriptModules_loop cmp_ver pp (unat modules_read) 0 err2 inp3 r4 modules_match of
                       OutOfRange a k \<Rightarrow> OutOfRange a k
                     | Defined (Inl ret) \<Rightarrow> Defined ret
                     | Defined (Inr (inp4, r5, modules_match')) \<Rightarrow>
                         (case ReadScriptModules_missing pp modules_match' 0 err2 of
                            OutOfRange a k \<Rightarrow> OutOfRange a k
                          | Defined err3 \<Rightarrow> Defined (err3, inp4, r5)))))"

definition ex_pp :: PreservedParams where
  "ex_pp = \<lparr>GlScDataSize = 0, ScriptModuleNames = [''A'', ''B''], ScMdDataSize = [4, 8]\<rparr>"

definition ex_rdata :: "SaveRestorationFlags \<Rightarrow> RestoredData" where
  "ex_rdata flags = \<lparr>RestoreFlags = flags,
      DataCounts_AudioClipTypes = 0, DataCounts_Characters = 0, DataCounts_Views = 0,
      DataCounts_ViewLoops = [], DataCounts_ViewFrames = [],
      DataCounts_GlobalScriptDataSz = 0, DataCounts_ScriptModules = 0,
      DataCounts_ScriptDataSz = [], DataCounts_Dummy = 0,
      GlobalScript_Data = [], ScriptModules = Map.empty, AudioChans = [], DoAmbient = []\<rparr>"

definition ex_module :: "string \<Rightarrow> char list \<Rightarrow> char list" where
  "ex_module name bytes =
     le_bytes 4 (of_nat (length name) :: 32 word) @ name @
     le_bytes 4 (of_nat (length bytes) :: 32 word) @ bytes"

definition ex_modules_AB :: "char list" where
  "ex_modules_AB = le_bytes 4 (0 :: 32 word) @ le_bytes 4 (2 :: 32 word) @
                   ex_module ''A'' ''aaaa'' @ ex_module ''B'' ''bbbbbbbb''"

definition ex_modules_BA :: "char list" where
  "ex_modules_BA = le_bytes 4 (0 :: 32 word) @ le_bytes 4 (2 :: 32 word) @
                   ex_module ''B'' ''bbbbbbbb'' @ ex_module ''A'' ''aaaa''"




subsection \<open>Audio\<close>

text \<open>
  The channel limits are macros of headers that are not among the sources
  (\<open>TOTAL_AUDIO_CHANNELS\<close>, \<open>MAX_GAME_CHANNELS\<close>, their \<open>_v320\<close> values and
  \<open>NUM_SPEECH_CHANS\<close>), so they are parameters of the reader, and so are the two
  element readers \<open>AudioClipType::ReadFromSavegame\<close> and
  \<open>AmbientSound::ReadFromFile\<close>. Of \<open>AmbientSound\<close> only the fields that
  \<open>ReadAudio\<close> touches are kept.
\<close>

record AudioLimits =
  TOTAL_AUDIO_CHANNELS :: "32 word"
  MAX_GAME_CHANNELS :: "32 word"
  TOTAL_AUDIO_CHANNELS_v320 :: "32 word"
  MAX_GAME_CHANNELS_v320 :: "32 word"
  NUM_SPEECH_CHANS :: "32 word"

record AmbientSound =
  channel :: "32 word"
  num :: "32 word"

record 'act AudioState =
  audioClipTypes :: "'act list"
  default_audio_type_volumes :: "32 word list"
  ambient :: "AmbientSound list"
  crossFading :: "32 word"
  crossFadeVolumePerStep :: "32 word"
  crossFadeStep :: "32 word"
  crossFadeVolumeAtStart :: "32 word"
  current_music_type :: "32 word"

record 'act AudioReaders =
  AudioClipType_ReadFromSavegame :: "'act \<Rightarrow> Stream \<Rightarrow> 'act \<times> Stream"
  AmbientSound_ReadFromFile :: "AmbientSound \<Rightarrow> Stream \<Rightarrow> AmbientSound \<times> Stream"

definition kAudioSvgVersion_35026 :: "32 word" where
  "kAudioSvgVersion_35026 = 1"

definition kAudioSvgVersion_36009 :: "32 word" where
  "kAudioSvgVersion_36009 = 2"

text \<open>
  The loop over the audio types. (A \<open>uint32_t\<close> counter that runs up to a
  \<open>uint32_t\<close> bound does not wrap, so the counters of such loops are natural
  numbers.)
\<close>

function ReadAudio_types ::
  "'act AudioReaders \<Rightarrow> 32 word \<Rightarrow> nat \<Rightarrow> Stream \<Rightarrow> 'act AudioState
     \<Rightarrow> (Stream \<times> 'act AudioState) behaviour" where
  "ReadAudio_types rd audiocliptype_read i inp g =
     (if i < unat audiocliptype_read
      then (case elem ''game.audioClipTypes'' (audioClipTypes g) i of
              OutOfRange a k \<Rightarrow> OutOfRange a k
            | Defined t \<Rightarrow>
                (let (t', inp1) = AudioClipType_ReadFromSavegame rd t inp
                 in case elem ''play.default_audio_type_volumes'' (default_audio_type_volumes g) i of
                      OutOfRange a k \<Rightarrow> OutOfRange a k
                    | Defined _ \<Rightarrow>
                        (let (v, inp2) = ReadInt32 inp1
                         in ReadAudio_types rd audiocliptype_read (Suc i) inp2
                              (g\<lparr>audioClipTypes := (audioClipTypes g)[i := t'],
                                 default_audio_type_volumes :=
                                   (default_audio_type_volumes g)[i := v]\<rparr>))))
      else Defined (inp, g))"
  by pat_completeness auto
termination
  by (relation "measure (\<lambda>(rd, n, i, inp, g). unat n - i)") auto

declare ReadAudio_types.simps [simp del]

text \<open>The body of the loop over the channels ("Active playbacks").\<close>

definition ReadAudio_channel :: "32 word \<Rightarrow> Stream \<Rightarrow> ChannelInfo \<Rightarrow> ChannelInfo \<times> Stream" where
  "ReadAudio_channel cmp_ver inp chan_info =
     (let chan_info = chan_info\<lparr>Pos := 0\<rparr>;
          (v, inp) = ReadInt32 inp; chan_info = chan_info\<lparr>ClipID := v\<rparr>
      in if 0 \<le>s ClipID chan_info
         then (let (v, inp) = ReadInt32 inp; chan_info = chan_info\<lparr>Pos := v\<rparr>;
                   chan_info = (if Pos chan_info <s 0 then chan_info\<lparr>Pos := 0\<rparr> else chan_info);
                   (v, inp) = ReadInt32 inp; chan_info = chan_info\<lparr>Priority := v\<rparr>;
                   (v, inp) = ReadInt32 inp; chan_info = chan_info\<lparr>Repeat := v\<rparr>;
                   (v, inp) = ReadInt32 inp; chan_info = chan_info\<lparr>Vol := v\<rparr>;
                   (v, inp) = ReadInt32 inp;
                   (v, inp) = ReadInt32 inp; chan_info = chan_info\<lparr>VolAsPercent := v\<rparr>;
                   (v, inp) = ReadInt32 inp; chan_info = chan_info\<lparr>Pan := v\<rparr>;
                   chan_info = chan_info\<lparr>Speed := 1000\<rparr>;
                   (v, inp) = ReadInt32 inp; chan_info = chan_info\<lparr>Speed := v\<rparr>
               in if kAudioSvgVersion_35026 \<le>s cmp_ver
                  then (let (v, inp) = ReadInt32 inp; chan_info = chan_info\<lparr>XSource := v\<rparr>;
                            (v, inp) = ReadInt32 inp; chan_info = chan_info\<lparr>YSource := v\<rparr>;
                            (v, inp) = ReadInt32 inp; chan_info = chan_info\<lparr>MaxDist := v\<rparr>
                        in (chan_info, inp))
                  else (chan_info, inp))
         else (chan_info, inp))"

function ReadAudio_channels ::
  "32 word \<Rightarrow> 32 word \<Rightarrow> nat \<Rightarrow> Stream \<Rightarrow> ChannelInfo list \<Rightarrow> (Stream \<times> ChannelInfo list) behaviour" where
  "ReadAudio_channels cmp_ver total_channels i inp chans =
     (if int i < sint total_channels
      then (case elem ''r_data.AudioChans'' chans i of
              OutOfRange a k \<Rightarrow> OutOfRange a k
            | Defined chan_info \<Rightarrow>
                (let (chan_info', inp') = ReadAudio_channel cmp_ver inp chan_info
                 in ReadAudio_channels cmp_ver total_channels (Suc i) inp' (chans[i := chan_info'])))
      else Defined (inp, chans))"
  by pat_completeness auto
termination
  by (relation "measure (\<lambda>(cmp_ver, total, i, inp, chans). nat (sint total) - i)") auto

declare ReadAudio_channels.simps [simp del]

text \<open>The two loops over the ambient sounds.\<close>

function ReadAudio_ambient ::
  "'act AudioReaders \<Rightarrow> 32 word \<Rightarrow> nat \<Rightarrow> Stream \<Rightarrow> AmbientSound list
     \<Rightarrow> (Stream \<times> AmbientSound list) behaviour" where
  "ReadAudio_ambient rd max_game_channels i inp amb =
     (if int i < sint max_game_channels
      then (case elem ''ambient'' amb i of
              OutOfRange a k \<Rightarrow> OutOfRange a k
            | Defined x \<Rightarrow>
                (let (x', inp') = AmbientSound_ReadFromFile rd x inp
                 in ReadAudio_ambient rd max_game_channels (Suc i) inp' (amb[i := x'])))
      else Defined (inp, amb))"
  by pat_completeness auto
termination
  by (relation "measure (\<lambda>(rd, m, i, inp, amb). nat (sint m) - i)") auto

declare ReadAudio_ambient.simps [simp del]

function ReadAudio_DoAmbient ::
  "32 word \<Rightarrow> nat \<Rightarrow> AmbientSound list \<Rightarrow> 32 word list \<Rightarrow> (AmbientSound list \<times> 32 word list) behaviour" where
  "ReadAudio_DoAmbient max_game_channels i amb do_ambient =
     (if int i < sint max_game_channels
      then (case elem ''ambient'' amb i of
              OutOfRange a k \<Rightarrow> OutOfRange a k
            | Defined x \<Rightarrow>
                (case elem ''r_data.DoAmbient'' do_ambient i of
                   OutOfRange a k \<Rightarrow> OutOfRange a k
                 | Defined _ \<Rightarrow>
                     if channel x = 0
                     then ReadAudio_DoAmbient max_game_channels (Suc i) amb (do_ambient[i := 0])
                     else ReadAudio_DoAmbient max_game_channels (Suc i)
                            (amb[i := x\<lparr>channel := 0\<rparr>]) (do_ambient[i := num x])))
      else Defined (amb, do_ambient))"
  by pat_completeness auto
termination
  by (relation "measure (\<lambda>(m, i, amb, d). nat (sint m) - i)") auto

declare ReadAudio_DoAmbient.simps [simp del]

definition ReadAudio ::
  "AudioLimits \<Rightarrow> 'act AudioReaders \<Rightarrow> Stream \<Rightarrow> 32 word \<Rightarrow> RestoredData \<Rightarrow> 'act AudioState
     \<Rightarrow> (HSaveError \<times> Stream \<times> RestoredData \<times> 'act AudioState) behaviour" where
  "ReadAudio lim rd inp cmp_ver r_data g =
     (let err = None;
          (audiocliptype_read, inp1) = ReadInt32 inp;
          (ok, err1, flags1, cnt1) =
             AssertGameContent err audiocliptype_read (of_nat (length (audioClipTypes g)))
               ''Audio Clip Types'' (RestoreFlags r_data);
          r1 = r_data\<lparr>RestoreFlags := flags1, DataCounts_AudioClipTypes := cnt1\<rparr>
      in if \<not> ok then Defined (err1, inp1, r1, g)
         else
           (let (ret, err2, total_channels, max_game_channels, inp2) =
                  (if kAudioSvgVersion_36009 \<le>s cmp_ver
                   then (let (t, s1) = ReadInt8 inp1; (m, s2) = ReadInt8 s1; (_, s3) = ReadInt16 s2;
                             total_channels = (scast t :: 32 word);
                             max_game_channels = (scast m :: 32 word);
                             (ok1, e1) = AssertCompatLimit err1 total_channels (TOTAL_AUDIO_CHANNELS lim)
                                           ''System Audio Channels''
                         in if \<not> ok1 then (True, e1, total_channels, max_game_channels, s3)
                            else (let (ok2, e2) = AssertCompatLimit e1 max_game_channels
                                                    (MAX_GAME_CHANNELS lim) ''Game Audio Channels''
                                  in (\<not> ok2, e2, total_channels, max_game_channels, s3)))
                   else (False, err1, TOTAL_AUDIO_CHANNELS_v320 lim, MAX_GAME_CHANNELS_v320 lim,
                         snd (ReadInt32 inp1)))
            in if ret then Defined (err2, inp2, r1, g)
               else
                 (case ReadAudio_types rd audiocliptype_read 0 inp2 g of
                    OutOfRange a k \<Rightarrow> OutOfRange a k
                  | Defined (inp3, g1) \<Rightarrow>
                      (case ReadAudio_channels cmp_ver total_channels 0 inp3 (AudioChans r1) of
                         OutOfRange a k \<Rightarrow> OutOfRange a k
                       | Defined (inp4, chans) \<Rightarrow>
                           (let r2 = r1\<lparr>AudioChans := chans\<rparr>;
                                (v1, s1) = ReadInt32 inp4; (v2, s2) = ReadInt32 s1;
                                (v3, s3) = ReadInt32 s2; (v4, s4) = ReadInt32 s3;
                                (v5, s5) = ReadInt32 s4;
                                g2 = g1\<lparr>crossFading := v1, crossFadeVolumePerStep := v2,
                                        crossFadeStep := v3, crossFadeVolumeAtStart := v4,
                                        current_music_type := v5\<rparr>
                            in case ReadAudio_ambient rd max_game_channels 0 s5 (ambient g2) of
                                 OutOfRange a k \<Rightarrow> OutOfRange a k
                               | Defined (inp5, amb) \<Rightarrow>
                                   (case ReadAudio_DoAmbient max_game_channels
                                           (nat (sint (NUM_SPEECH_CHANS lim))) amb (DoAmbient r2) of
                                      OutOfRange a k \<Rightarrow> OutOfRange a k
                                    | Defined (amb', do_ambient) \<Rightarrow>
                                        Defined (err2, inp5, r2\<lparr>DoAmbient := do_ambient\<rparr>,
                                                 g2\<lparr>ambient := amb'\<rparr>)))))))"

subsection \<open>Characters\<close>

text \<open>
  The character arrays of the game (\<open>game.chars\<close>, \<open>game.chars2\<close>,
  \<open>charextra\<close>, \<open>play.charProps\<close>, \<open>game.intrChar\<close>, \<open>mls\<close>) with the
  fields of the game that \<open>ReadCharacters\<close> reads. The element types and their
  readers (\<open>CharacterInfo::ReadFromSavegame\<close>, \<open>CharacterExtras::ReadFromSavegame\<close>,
  \<open>Properties::ReadValues\<close>, \<open>MoveList::ReadFromSavegame\<close>) and the constants
  \<open>kGameVersion_272\<close>, \<open>kCharSvgVersion_36109\<close>, \<open>CHMLSOFFS\<close> and
  \<open>kMoveSvgVersion_350\<close> are declared in files that are not among the sources: the
  types are type parameters and the readers and constants are parameters of the model.
  An \<open>Interaction\<close> is the list of its events.
\<close>

record InteractionEvent =
  EventType :: "32 word"
  TimesRun :: "32 word"

record ('ci, 'ci2, 'cx, 'pr, 'ml) CharacterState =
  numcharacters :: "32 word"
  loaded_game_file_version :: int
  chars :: "'ci list"
  chars2 :: "'ci2 list"
  charextra :: "'cx list"
  charProps :: "'pr list"
  intrChar :: "InteractionEvent list list"
  mls :: "'ml list"

record ('ci, 'ci2, 'cx, 'pr, 'ml) CharacterReaders =
  CharacterInfo_ReadFromSavegame :: "'ci \<Rightarrow> Stream \<Rightarrow> 'ci2 \<Rightarrow> 32 word \<Rightarrow> 'ci \<times> 'ci2 \<times> Stream"
  CharacterExtras_ReadFromSavegame :: "'cx \<Rightarrow> Stream \<Rightarrow> 32 word \<Rightarrow> 'cx \<times> Stream"
  Properties_ReadValues :: "'pr \<Rightarrow> Stream \<Rightarrow> 'pr \<times> Stream"
  MoveList_ReadFromSavegame :: "'ml \<Rightarrow> Stream \<Rightarrow> int \<Rightarrow> HSaveError \<times> 'ml \<times> Stream"
  kGameVersion_272 :: int
  kCharSvgVersion_36109 :: "32 word"
  CHMLSOFFS :: nat
  kMoveSvgVersion_350 :: int

text \<open>\<open>ReadTimesRun272\<close>: one 32-bit value for every event of the interaction.\<close>

fun ReadTimesRun272 :: "InteractionEvent list \<Rightarrow> Stream \<Rightarrow> InteractionEvent list \<times> Stream" where
  "ReadTimesRun272 [] inp = ([], inp)"
| "ReadTimesRun272 (e # es) inp =
     (let (v, inp1) = ReadInt32 inp; (es', inp2) = ReadTimesRun272 es inp1
      in (e\<lparr>TimesRun := v\<rparr> # es', inp2))"

text \<open>
  One round of the loop of \<open>ReadCharacters\<close>, for the slot \<open>i\<close>. \<open>Inl\<close> is the
  \<open>return err\<close> after a move list that failed to load.
\<close>

definition ReadCharacters_slot ::
  "('ci, 'ci2, 'cx, 'pr, 'ml) CharacterReaders \<Rightarrow> 32 word \<Rightarrow> nat \<Rightarrow> Stream
     \<Rightarrow> ('ci, 'ci2, 'cx, 'pr, 'ml) CharacterState
     \<Rightarrow> ((HSaveError \<times> Stream \<times> ('ci, 'ci2, 'cx, 'pr, 'ml) CharacterState)
          + (Stream \<times> ('ci, 'ci2, 'cx, 'pr, 'ml) CharacterState)) behaviour" where
  "ReadCharacters_slot rd cmp_ver i inp g =
     (case elem ''game.chars'' (chars g) i of
        OutOfRange a k \<Rightarrow> OutOfRange a k
      | Defined c \<Rightarrow>
     (case elem ''game.chars2'' (chars2 g) i of
        OutOfRange a k \<Rightarrow> OutOfRange a k
      | Defined c2 \<Rightarrow>
     (let (c', c2', inp1) = CharacterInfo_ReadFromSavegame rd c inp c2 cmp_ver;
          g1 = g\<lparr>chars := (chars g)[i := c'], chars2 := (chars2 g)[i := c2']\<rparr>
      in case elem ''charextra'' (charextra g1) i of
        OutOfRange a k \<Rightarrow> OutOfRange a k
      | Defined x \<Rightarrow>
     (let (x', inp2) = CharacterExtras_ReadFromSavegame rd x inp1 cmp_ver;
          g2 = g1\<lparr>charextra := (charextra g1)[i := x']\<rparr>
      in case elem ''play.charProps'' (charProps g2) i of
        OutOfRange a k \<Rightarrow> OutOfRange a k
      | Defined p \<Rightarrow>
     (let (p', inp3) = Properties_ReadValues rd p inp2;
          g3 = g2\<lparr>charProps := (charProps g2)[i := p']\<rparr>
      in case (if loaded_game_file_version g3 \<le> kGameVersion_272 rd
               then (case elem ''game.intrChar'' (intrChar g3) i of
                       OutOfRange a k \<Rightarrow> OutOfRange a k
                     | Defined intr \<Rightarrow>
                         (let (intr', inp4) = ReadTimesRun272 intr inp3
                          in Defined (inp4, g3\<lparr>intrChar := (intrChar g3)[i := intr']\<rparr>)))
               else Defined (inp3, g3)) of
        OutOfRange a k \<Rightarrow> OutOfRange a k
      | Defined (inp4, g4) \<Rightarrow>
          if cmp_ver <s kCharSvgVersion_36109 rd
          then (case elem ''mls'' (mls g4) (CHMLSOFFS rd + i) of
                  OutOfRange a k \<Rightarrow> OutOfRange a k
                | Defined m \<Rightarrow>
                    (let (err, m', inp5) = MoveList_ReadFromSavegame rd m inp4 (kMoveSvgVersion_350 rd);
                         g5 = g4\<lparr>mls := (mls g4)[CHMLSOFFS rd + i := m']\<rparr>
                     in if err \<noteq> None then Defined (Inl (err, inp5, g5))
                        else Defined (Inr (inp5, g5))))
          else Defined (Inr (inp4, g4)))))))"

function ReadCharacters_loop ::
  "('ci, 'ci2, 'cx, 'pr, 'ml) CharacterReaders \<Rightarrow> 32 word \<Rightarrow> 32 word \<Rightarrow> nat \<Rightarrow> Stream
     \<Rightarrow> ('ci, 'ci2, 'cx, 'pr, 'ml) CharacterState
     \<Rightarrow> ((HSaveError \<times> Stream \<times> ('ci, 'ci2, 'cx, 'pr, 'ml) CharacterState)
          + (Stream \<times> ('ci, 'ci2, 'cx, 'pr, 'ml) CharacterState)) behaviour" where
  "ReadCharacters_loop rd cmp_ver characters_read i inp g =
     (if i < unat characters_read
      then (case ReadCharacters_slot rd cmp_ver i inp g of
              OutOfRange a k \<Rightarrow> OutOfRange a k
            | Defined (Inl ret) \<Rightarrow> Defined (Inl ret)
            | Defined (Inr (inp', g')) \<Rightarrow> ReadCharacters_loop rd cmp_ver characters_read (Suc i) inp' g')
      else Defined (Inr (inp, g)))"
  by pat_completeness auto
termination
  by (relation "measure (\<lambda>(rd, cmp_ver, n, i, inp, g). unat n - i)") auto

declare ReadCharacters_loop.simps [simp del]

definition ReadCharacters ::
  "('ci, 'ci2, 'cx, 'pr, 'ml) CharacterReaders \<Rightarrow> Stream \<Rightarrow> 32 word \<Rightarrow> RestoredData
     \<Rightarrow> ('ci, 'ci2, 'cx, 'pr, 'ml) CharacterState
     \<Rightarrow> (HSaveError \<times> Stream \<times> RestoredData \<times> ('ci, 'ci2, 'cx, 'pr, 'ml) CharacterState) behaviour" where
  "ReadCharacters rd inp cmp_ver r_data g =
     (let err = None;
          (characters_read, inp1) = ReadInt32 inp;
          (ok, err1, flags1, cnt1) =
             AssertGameContent err characters_read (numcharacters g) ''Characters'' (RestoreFlags r_data);
          r1 = r_data\<lparr>RestoreFlags := flags1, DataCounts_Characters := cnt1\<rparr>
      in if \<not> ok then Defined (err1, inp1, r1, g)
         else (case ReadCharacters_loop rd cmp_ver characters_read 0 inp1 g of
                 OutOfRange a k \<Rightarrow> OutOfRange a k
               | Defined (Inl (err2, inp2, g')) \<Rightarrow> Defined (err2, inp2, r1, g')
               | Defined (Inr (inp2, g')) \<Rightarrow> Defined (err1, inp2, r1, g')))"

text \<open>
  A game with one character whose arrays hold one slot each, and a save of two
  characters. In the sample every character record is four bytes long.
\<close>

definition ex_char_readers :: "(char list, unit, unit, unit, unit) CharacterReaders" where
  "ex_char_readers =
     \<lparr>CharacterInfo_ReadFromSavegame = (\<lambda>c inp c2 ver. (fst (Read 4 inp), c2, snd (Read 4 inp))),
      CharacterExtras_ReadFromSavegame = (\<lambda>x inp ver. (x, inp)),
      Properties_ReadValues = Pair,
      MoveList_ReadFromSavegame = (\<lambda>m inp ver. (None, m, inp)),
      kGameVersion_272 = 0, kCharSvgVersion_36109 = 0, CHMLSOFFS = 0, kMoveSvgVersion_350 = 0\<rparr>"

definition ex_game_chars :: "nat \<Rightarrow> (char list, unit, unit, unit, unit) CharacterState" where
  "ex_game_chars capacity =
     \<lparr>numcharacters = 1, loaded_game_file_version = 1,
      chars = replicate capacity ''orig'', chars2 = replicate capacity (),
      charextra = replicate capacity (), charProps = replicate capacity (),
      intrChar = replicate capacity [], mls = replicate capacity ()\<rparr>"

definition ex_save_chars :: "char list" where
  "ex_save_chars = le_bytes 4 (2 :: 32 word) @ ''AAAA'' @ ''BBBB''"

(*DEFS_END*)
section \<open>The content-count assertion\<close>

lemma HandleGameContentMismatch_extra:
  "original_val < new_val \<Longrightarrow>
   HandleGameContentMismatch err new_val original_val t fl =
     (if kSaveRestore_AllowMismatchExtra \<in> fl
      then (True, err, insert kSaveRestore_ExtraDataInSave fl)
      else (False, new_SavegameError kSvgErr_GameContentAssertion t, fl))"
  by (auto simp add: HandleGameContentMismatch_def dest: order.strict_trans)

lemma HandleGameContentMismatch_less:
  "new_val < original_val \<Longrightarrow>
   HandleGameContentMismatch err new_val original_val t fl =
     (if kSaveRestore_AllowMismatchLess \<notin> fl
      then (False, new_SavegameError kSvgErr_GameContentAssertion t, fl)
      else if kSaveRestore_ClearData \<notin> fl
      then (False, new_SavegameError0 kSvgErr_GameContentAssert_RequireClearReload,
            insert kSaveRestore_MissingDataInSave fl)
      else (True, err, insert kSaveRestore_MissingDataInSave fl))"
  by (auto simp add: HandleGameContentMismatch_def Let_def)

text \<open>
  C1. For every saved count \<open>N\<close>, game count \<open>M\<close> and restoration-flags mask, the
  content-count assertion (\<open>AssertGameContent\<close> through \<open>HandleGameContentMismatch\<close>)
  behaves as follows. \<open>N = M\<close> succeeds and records no flag. \<open>N > M\<close> succeeds, recording
  \<open>ExtraDataInSave\<close>, if and only if \<open>AllowMismatchExtra\<close> is set, and otherwise fails
  with \<open>GameContentAssertion\<close>. \<open>N < M\<close> without \<open>AllowMismatchLess\<close> fails with
  \<open>GameContentAssertion\<close>; with \<open>AllowMismatchLess\<close> but without \<open>ClearData\<close> it fails
  with \<open>GameContentAssert_RequireClearReload\<close>; with both it succeeds and records
  \<open>MissingDataInSave\<close>. The incoming error handle is left as it was on success.
\<close>

theorem AssertGameContent_policy:
  fixes N M :: "32 word"
  shows "(let res = AssertGameContent err N M content_name fl in
     (N = M \<longrightarrow> res = (True, err, fl, N)) \<and>
     (N > M \<longrightarrow> (fst res \<longleftrightarrow> kSaveRestore_AllowMismatchExtra \<in> fl)) \<and>
     (N > M \<and> kSaveRestore_AllowMismatchExtra \<in> fl \<longrightarrow>
        res = (True, err, insert kSaveRestore_ExtraDataInSave fl, N)) \<and>
     (N > M \<and> kSaveRestore_AllowMismatchExtra \<notin> fl \<longrightarrow>
        fst res = False \<and> ErrKind (fst (snd res)) = Some kSvgErr_GameContentAssertion
          \<and> fst (snd (snd res)) = fl) \<and>
     (N < M \<and> kSaveRestore_AllowMismatchLess \<notin> fl \<longrightarrow>
        fst res = False \<and> ErrKind (fst (snd res)) = Some kSvgErr_GameContentAssertion
          \<and> fst (snd (snd res)) = fl) \<and>
     (N < M \<and> kSaveRestore_AllowMismatchLess \<in> fl \<and> kSaveRestore_ClearData \<notin> fl \<longrightarrow>
        fst res = False
          \<and> ErrKind (fst (snd res)) = Some kSvgErr_GameContentAssert_RequireClearReload) \<and>
     (N < M \<and> kSaveRestore_AllowMismatchLess \<in> fl \<and> kSaveRestore_ClearData \<in> fl \<longrightarrow>
        res = (True, err, insert kSaveRestore_MissingDataInSave fl, N)))"
  by (auto simp add: AssertGameContent_def HandleGameContentMismatch_extra
        HandleGameContentMismatch_less ErrKind_def new_SavegameError_def new_SavegameError0_def)

theorem AssertGameContent_policy_witness:
  "AssertGameContent None 5 5 ''Characters'' {} = (True, None, {}, 5) \<and>
   AssertGameContent None 7 5 ''Characters'' {kSaveRestore_AllowMismatchExtra}
     = (True, None, {kSaveRestore_ExtraDataInSave, kSaveRestore_AllowMismatchExtra}, 7) \<and>
   ErrKind (fst (snd (AssertGameContent None 7 5 ''Characters'' {kSaveRestore_AllowMismatchLess})))
     = Some kSvgErr_GameContentAssertion \<and>
   ErrKind (fst (snd (AssertGameContent None 3 5 ''Characters'' {kSaveRestore_AllowMismatchLess})))
     = Some kSvgErr_GameContentAssert_RequireClearReload \<and>
   AssertGameContent None 3 5 ''Characters'' {kSaveRestore_AllowMismatchLess, kSaveRestore_ClearData}
     = (True, None, {kSaveRestore_MissingDataInSave, kSaveRestore_AllowMismatchLess,
          kSaveRestore_ClearData}, 3)"
  using AssertGameContent_policy [where N = 5 and M = 5 and err = None
          and content_name = "''Characters''" and fl = "{}"]
        AssertGameContent_policy [where N = 7 and M = 5 and err = None
          and content_name = "''Characters''" and fl = "{kSaveRestore_AllowMismatchExtra}"]
        AssertGameContent_policy [where N = 7 and M = 5 and err = None
          and content_name = "''Characters''" and fl = "{kSaveRestore_AllowMismatchLess}"]
        AssertGameContent_policy [where N = 3 and M = 5 and err = None
          and content_name = "''Characters''" and fl = "{kSaveRestore_AllowMismatchLess}"]
        AssertGameContent_policy [where N = 3 and M = 5 and err = None
          and content_name = "''Characters''"
          and fl = "{kSaveRestore_AllowMismatchLess, kSaveRestore_ClearData}"]
  by (simp add: Let_def)

section \<open>Tags and the handler registry\<close>











lemma multimap_insert_set: "set (multimap_insert kv m) = insert kv (set m)"
  by (induction m) auto

lemma multimap_insert_sorted:
  "sorted (map fst m) \<Longrightarrow> sorted (map fst (multimap_insert kv m))"
  by (induction m) (auto simp add: multimap_insert_set)

lemma multimap_insert_filter:
  "sorted (map fst m) \<Longrightarrow>
   filter (\<lambda>x. fst x = k) (multimap_insert kv m) =
     filter (\<lambda>x. fst x = k) m @ (if fst kv = k then [kv] else [])"
proof (induction m)
  case Nil
  show ?case by simp
next
  case (Cons x xs)
  have "fst kv < fst x \<Longrightarrow> fst kv = k \<Longrightarrow> filter (\<lambda>x. fst x = k) (x # xs) = []"
    using Cons.prems by (auto simp add: filter_empty_conv)
  with Cons show ?case by auto
qed

lemma equal_range_sorted:
  "sorted (map fst m) \<Longrightarrow> equal_range m k = filter (\<lambda>x. fst x = k) m"
proof (induction m)
  case Nil
  show ?case by (simp add: equal_range_def)
next
  case (Cons x xs)
  then have IH: "equal_range xs k = filter (\<lambda>x. fst x = k) xs" by simp
  consider "fst x < k" | "fst x = k" | "k < fst x" by (metis less_linear)
  then show ?case
  proof cases
    case 1
    with IH show ?thesis by (simp add: equal_range_def)
  next
    case 2
    have "\<forall>y \<in> set xs. k \<le> fst y" using Cons.prems 2 by auto
    then have "dropWhile (\<lambda>kv. fst kv < k) xs = xs"
      by (metis (mono_tags, lifting) dropWhile_eq_self_iff hd_in_set leD)
    with IH have "takeWhile (\<lambda>kv. \<not> k < fst kv) xs = filter (\<lambda>x. fst x = k) xs"
      by (simp add: equal_range_def)
    with 2 show ?thesis by (simp add: equal_range_def)
  next
    case 3
    have "\<forall>y \<in> set xs. k < fst y" using Cons.prems 3 by auto
    then have "filter (\<lambda>x. fst x = k) xs = []" by (auto simp add: filter_empty_conv)
    moreover have "\<not> fst x < k" "fst x \<noteq> k" using 3 by auto
    ultimately show ?thesis using 3 by (simp add: equal_range_def)
  qed
qed

lemma GenerateHandlersMap_loop_sorted:
  "sorted (map fst m) \<Longrightarrow> sorted (map fst (GenerateHandlersMap_loop t m))"
  by (induction t arbitrary: m) (auto simp add: multimap_insert_sorted)

lemma GenerateHandlersMap_loop_filter:
  "sorted (map fst m) \<Longrightarrow>
   filter (\<lambda>x. fst x = k) (GenerateHandlersMap_loop t m) =
     filter (\<lambda>x. fst x = k) m @
     map (\<lambda>h. (Name h, h)) (filter (\<lambda>h. Name h = k) (takeWhile (\<lambda>h. Name h \<noteq> []) t))"
proof (induction t arbitrary: m)
  case Nil
  show ?case by simp
next
  case (Cons h hs)
  show ?case
  proof (cases "Name h = []")
    case True
    then show ?thesis by simp
  next
    case False
    have s: "sorted (map fst (multimap_insert (Name h, h) m))"
      using Cons.prems by (rule multimap_insert_sorted)
    show ?thesis
      using False Cons.IH [OF s] Cons.prems by (simp add: multimap_insert_filter)
  qed
qed

lemma equal_range_GenerateHandlersMap:
  "equal_range (GenerateHandlersMap t) k =
     map (\<lambda>h. (Name h, h)) (filter (\<lambda>h. Name h = k) (takeWhile (\<lambda>h. Name h \<noteq> []) t))"
  using GenerateHandlersMap_loop_sorted [of "[]" t] GenerateHandlersMap_loop_filter [of "[]" k t]
  by (simp add: GenerateHandlersMap_def equal_range_sorted)

lemma FindHandler_find:
  "FindHandler (map (\<lambda>h. (Name h, h)) hs) sel = find (\<lambda>h. Selection h AND sel \<noteq> 0) hs"
  by (induction hs) auto

section \<open>Dispatch of a component record\<close>

text \<open>
  C7. For an encountered component name, the dispatch of \<open>ReadComponent\<close> is
  determined by the registration table in table order. If no registered handler has the
  name, it fails with \<open>UnsupportedComponent\<close>. Otherwise the first handler of that name
  in table order whose selection bits intersect the active mask is chosen; if it has a
  deserialize function and the declared version is above its maximum or below its
  minimum, the result is \<open>UnsupportedComponentVersion\<close>, and if the version is in range
  the deserialize function is run. If no handler is selected by the mask, or the chosen
  one has no deserialize function, the payload is skipped by a seek over its declared
  length and processing carries on as for a success.
\<close>

theorem ReadComponent_dispatch:
  fixes table :: "'st ComponentHandler list"
  assumes tag: "ReadFormatTag inp [] True = (True, name, inp1)"
  shows "(let hlp = \<lparr>HlpVersion = v, ComponentSelection = sel, Handlers = GenerateHandlersMap table\<rparr>;
           named = filter (\<lambda>h. Name h = name) (takeWhile (\<lambda>h. Name h \<noteq> []) table);
           chosen = find (\<lambda>h. Selection h AND sel \<noteq> 0) named;
           r32 = ReadInt32 inp1;
           rsz = (if v \<ge> kSvgVersion_Cmp_64bit
                  then (sint (fst (ReadInt64 (snd r32))), snd (ReadInt64 (snd r32)))
                  else (sint (fst (ReadInt32 (snd r32))), snd (ReadInt32 (snd r32))));
           inp3 = snd rsz;
           info = \<lparr>InfoName = name, InfoVersion = fst r32, Offset = GetPosition inp,
                    DataOffset = GetPosition inp3, DataSize = fst rsz\<rparr>;
           skip = Inr (info, Seek (DataSize info) kSeekCurrent inp3, st)
       in (named = [] \<longrightarrow>
             ReadComponent_data inp hlp st
               = Inl (new_SavegameError0 kSvgErr_UnsupportedComponent, info, inp3, st)) \<and>
          (named \<noteq> [] \<longrightarrow>
             ReadComponent_data inp hlp st =
               (case chosen of
                  None \<Rightarrow> skip
                | Some handler \<Rightarrow>
                    (case Unserialize handler of
                       None \<Rightarrow> skip
                     | Some unserialize \<Rightarrow>
                         if Version handler <s InfoVersion info \<or> InfoVersion info <s LowestVersion handler
                         then Inl (new_SavegameError kSvgErr_UnsupportedComponentVersion
                                     (FromFormat ''Saved version: %d, supported: %d - %d''
                                        [ArgD (sint (InfoVersion info)), ArgD (sint (LowestVersion handler)),
                                         ArgD (sint (Version handler))]), info, inp3, st)
                         else (case unserialize inp3 (InfoVersion info) (DataSize info) st of
                                 (err, inp4, st') \<Rightarrow>
                                   if err \<noteq> None then Inl (err, info, inp4, st')
                                   else Inr (info, inp4, st'))))))"
  using tag
  by (auto simp add: ReadComponent_data_def ComponentInfo0_def Let_def
        equal_range_GenerateHandlersMap FindHandler_find split: prod.splits option.splits)

theorem ReadComponent_dispatch_witness:
  "ReadFormatTag (ex_stream ex_component) [] True = (True, ''X'', \<lparr>sdata = ex_component, spos = 3\<rparr>) \<and>
   ReadComponent_data (ex_stream ex_component)
      \<lparr>HlpVersion = 10, ComponentSelection = 2,
         Handlers = GenerateHandlersMap [ex_handler_ok, ex_handler_2, ex_handler_3]\<rparr> ()
    = Inl (new_SavegameError kSvgErr_UnsupportedComponentVersion
             (FromFormat ''Saved version: %d, supported: %d - %d'' [ArgD 0, ArgD 1, ArgD 3]),
           \<lparr>InfoName = ''X'', InfoVersion = 0, Offset = 0, DataOffset = 15, DataSize = 0\<rparr>,
           \<lparr>sdata = ex_component, spos = 15\<rparr>, ())"
proof -
  have h: "ReadFormatTag (ex_stream ex_component) [] True = (True, ''X'', \<lparr>sdata = ex_component, spos = 3\<rparr>)"
    by code_simp
  have r32: "ReadInt32 \<lparr>sdata = ex_component, spos = 3\<rparr> = (0, \<lparr>sdata = ex_component, spos = 7\<rparr>)"
    by code_simp
  have r64: "ReadInt64 \<lparr>sdata = ex_component, spos = 7\<rparr> = (0, \<lparr>sdata = ex_component, spos = 15\<rparr>)"
    by code_simp
  show ?thesis
    using h ReadComponent_dispatch [OF h, of 10 2 "[ex_handler_ok, ex_handler_2, ex_handler_3]" "()"]
    by (simp add: Let_def ex_handler_ok_def ex_handler_2_def ex_handler_3_def r32 r64
          kSvgVersion_Cmp_64bit_def GetPosition_def ex_stream_def word_sless_alt)
qed

section \<open>The framing check\<close>

text \<open>
  C6. For every component record, once the payload has been consumed (parsed by a
  handler or skipped by seeking), \<open>ReadComponent\<close> fails with
  \<open>ComponentSizeMismatch\<close> unless the stream position minus the data offset equals
  the declared data length; when \<open>ReadComponent\<close> succeeds, the equality held (and the
  closing tag of the component followed).
\<close>

theorem ReadComponent_size_check:
  "(\<forall>info inp' st'. ReadComponent_data inp hlp st = Inr (info, inp', st') \<and>
        GetPosition inp' - DataOffset info \<noteq> DataSize info \<longrightarrow>
        ErrKind (fst (ReadComponent inp hlp st)) = Some kSvgErr_ComponentSizeMismatch) \<and>
   (fst (ReadComponent inp hlp st) = None \<longrightarrow>
      (\<exists>info inp' st'. ReadComponent_data inp hlp st = Inr (info, inp', st') \<and>
          GetPosition inp' - DataOffset info = DataSize info \<and>
          fst (AssertFormatTag inp' (InfoName info) False) \<and>
          snd (ReadComponent inp hlp st) = (info, snd (AssertFormatTag inp' (InfoName info) False), st')))"
proof (intro conjI allI impI)
  fix info inp' st'
  assume "ReadComponent_data inp hlp st = Inr (info, inp', st') \<and>
          GetPosition inp' - DataOffset info \<noteq> DataSize info"
  then show "ErrKind (fst (ReadComponent inp hlp st)) = Some kSvgErr_ComponentSizeMismatch"
    by (simp add: ReadComponent_def ErrKind_def new_SavegameError_def)
next
  assume ok: "fst (ReadComponent inp hlp st) = None"
  have no_err: "ReadComponent_data inp hlp st = Inl ret \<Longrightarrow> fst ret \<noteq> None" for ret
    by (auto simp add: ReadComponent_data_def Let_def new_SavegameError0_def new_SavegameError_def
          split: prod.splits if_splits option.splits)
  from ok no_err obtain info inp' st' where d: "ReadComponent_data inp hlp st = Inr (info, inp', st')"
    by (cases "ReadComponent_data inp hlp st") (auto simp add: ReadComponent_def)
  with ok show "\<exists>info inp' st'. ReadComponent_data inp hlp st = Inr (info, inp', st') \<and>
          GetPosition inp' - DataOffset info = DataSize info \<and>
          fst (AssertFormatTag inp' (InfoName info) False) \<and>
          snd (ReadComponent inp hlp st) = (info, snd (AssertFormatTag inp' (InfoName info) False), st')"
    by (auto simp add: ReadComponent_def new_SavegameError_def new_SavegameError0_def
          split: if_splits prod.splits)
qed

theorem ReadComponent_size_check_witness:
  "fst (ReadComponent (ex_stream ex_component) ex_helper ()) = None \<and>
   (\<exists>info inp' st'. ReadComponent_data (ex_stream ex_component) ex_helper () = Inr (info, inp', st') \<and>
       GetPosition inp' - DataOffset info = DataSize info) \<and>
   ReadComponent_data (ex_stream ex_component_5) ex_helper ()
     = Inr (\<lparr>InfoName = ''X'', InfoVersion = 0, Offset = 0, DataOffset = 15, DataSize = 5\<rparr>,
            \<lparr>sdata = ex_component_5, spos = 19\<rparr>, ()) \<and>
   ErrKind (fst (ReadComponent (ex_stream ex_component_5) ex_helper ()))
     = Some kSvgErr_ComponentSizeMismatch"
proof -
  have h1: "fst (ReadComponent (ex_stream ex_component) ex_helper ()) = None"
    by code_simp
  have h2: "ReadComponent_data (ex_stream ex_component_5) ex_helper ()
     = Inr (\<lparr>InfoName = ''X'', InfoVersion = 0, Offset = 0, DataOffset = 15, DataSize = 5\<rparr>,
            \<lparr>sdata = ex_component_5, spos = 19\<rparr>, ())"
    by code_simp
  have h3: "GetPosition \<lparr>sdata = ex_component_5, spos = 19\<rparr>
      - DataOffset \<lparr>InfoName = ''X'', InfoVersion = 0, Offset = 0, DataOffset = 15, DataSize = 5\<rparr>
      \<noteq> DataSize \<lparr>InfoName = ''X'', InfoVersion = 0, Offset = 0, DataOffset = 15, DataSize = 5\<rparr>"
    by (simp add: GetPosition_def)
  from ReadComponent_size_check [of "ex_stream ex_component" ex_helper "()"] h1
  have "\<exists>info inp' st'. ReadComponent_data (ex_stream ex_component) ex_helper () = Inr (info, inp', st') \<and>
       GetPosition inp' - DataOffset info = DataSize info"
    by blast
  moreover from ReadComponent_size_check [of "ex_stream ex_component_5" ex_helper "()"] h2 h3
  have "ErrKind (fst (ReadComponent (ex_stream ex_component_5) ex_helper ()))
     = Some kSvgErr_ComponentSizeMismatch"
    by blast
  ultimately show ?thesis using h1 h2 by blast
qed



section \<open>Reading the component list\<close>











section \<open>Writing a component\<close>

lemma WriteFormatTag_closing_bytes:
  "sdata (WriteFormatTag out tag False) =
     take (spos out) (sdata out) @ ''</'' @ tag @ ''>'' @ drop (spos out + length tag + 3) (sdata out)"
  by (simp add: WriteFormatTag_def Write_def Let_def numeral_3_eq_3)

text \<open>
  The claim as stated fails for a handler that succeeds and writes nothing: the closing
  tag \<open></X>\<close> follows the (empty) payload, while for a handler that fails the
  stream ends with the payload.
\<close>

theorem WriteComponent_closing_tag_counterexample:
  "fst (Serialize ex_handler_ok (ex_stream [])) = None \<and>
   fst (WriteComponent (ex_stream []) ex_handler_ok) = None \<and>
   sdata (snd (WriteComponent_data (ex_stream []) ex_handler_ok)) = ''<X>'' @ replicate 12 (CHR 0x00) \<and>
   sdata (snd (WriteComponent (ex_stream []) ex_handler_ok))
     = ''<X>'' @ replicate 12 (CHR 0x00) @ ''</X>'' \<and>
   fst (WriteComponent (ex_stream []) ex_handler_fail) \<noteq> None \<and>
   sdata (snd (WriteComponent (ex_stream []) ex_handler_fail)) = ''<X>'' @ replicate 12 (CHR 0x00)"
  by code_simp

text \<open>
  C2 (amended). On the write path, for every component, \<open>WriteComponent\<close> returns
  the error of the serialize handler and writes the component's closing tag after the
  payload exactly when the handler succeeds; when the handler reports a failure, no
  closing tag is written.
\<close>

theorem WriteComponent_closing_tag:
  "(let body = WriteComponent_data out hdlr; res = WriteComponent out hdlr
    in fst res = fst body \<and>
       fst body = fst (Serialize hdlr
                        (WriteInt64 0 (WriteInt32 (Version hdlr) (WriteFormatTag out (Name hdlr) True)))) \<and>
       (fst body = None \<longrightarrow>
          snd res = WriteFormatTag (snd body) (Name hdlr) False \<and>
          sdata (snd res) = take (spos (snd body)) (sdata (snd body)) @ ''</'' @ Name hdlr @ ''>'' @
                              drop (spos (snd body) + length (Name hdlr) + 3) (sdata (snd body))) \<and>
       (fst body \<noteq> None \<longrightarrow> snd res = snd body))"
  by (auto simp add: WriteComponent_def WriteComponent_data_def Let_def WriteFormatTag_closing_bytes
        split: prod.splits)

theorem WriteComponent_closing_tag_witness:
  "fst (WriteComponent_data (ex_stream []) ex_handler_ok) = None \<and>
   snd (WriteComponent (ex_stream []) ex_handler_ok)
     = WriteFormatTag (snd (WriteComponent_data (ex_stream []) ex_handler_ok)) ''X'' False \<and>
   fst (WriteComponent_data (ex_stream []) ex_handler_fail) \<noteq> None \<and>
   snd (WriteComponent (ex_stream []) ex_handler_fail)
     = snd (WriteComponent_data (ex_stream []) ex_handler_fail)"
proof -
  have h1: "fst (WriteComponent_data (ex_stream []) ex_handler_ok) = None" by code_simp
  have h2: "fst (WriteComponent_data (ex_stream []) ex_handler_fail) \<noteq> None" by code_simp
  have n1: "Name ex_handler_ok = ''X''" by (simp add: ex_handler_ok_def)
  show ?thesis
    using WriteComponent_closing_tag [of "ex_stream []" ex_handler_ok]
      WriteComponent_closing_tag [of "ex_stream []" ex_handler_fail] h1 h2 n1
    by (simp add: Let_def)
qed


section \<open>Script modules\<close>













lemma ReadScriptModules_missing_all_matched:
  "\<forall>j. i \<le> j \<and> j < length mm \<longrightarrow> mm ! j \<Longrightarrow>
   ReadScriptModules_missing pp mm i err = Defined err"
proof (induction pp mm i err rule: ReadScriptModules_missing.induct)
  case (1 pp mm i err)
  show ?case
  proof (cases "i < length mm")
    case False
    then show ?thesis by (simp add: ReadScriptModules_missing.simps [of pp mm i])
  next
    case True
    with "1.prems" have m: "mm ! i" by simp
    have "ReadScriptModules_missing pp mm (Suc i) err = Defined err"
      using "1.prems" by (intro "1.IH"(2) [OF True]) (auto simp add: m)
    with True m show ?thesis by (simp add: ReadScriptModules_missing.simps [of pp mm i])
  qed
qed


lemma kinds_not_None:
  "ErrKind e = Some k \<Longrightarrow> e \<noteq> None"
  by (auto simp add: ErrKind_def)






text \<open>
  C3. The game has the modules \<open>A\<close> (4 bytes of data) and \<open>B\<close> (8 bytes). A save
  that holds them in this order is read with success. A save that holds \<open>B\<close> (8
  bytes) and then \<open>A\<close> (4 bytes) matches each module by name, yet the size of the
  saved \<open>B\<close> is asserted against \<open>pp.ScMdDataSize[0]\<close>, the size of the module at
  the same position (\<open>A\<close>), and the read fails with a \<open>GameContentAssertion\<close>.
\<close>

theorem ReadScriptModules_reordered:
  "ScriptModuleNames ex_pp = [''A'', ''B''] \<and> ScMdDataSize ex_pp = [4, 8] \<and>
   ex_modules_BA = le_bytes 4 (0 :: 32 word) @ le_bytes 4 (2 :: 32 word) @
                   ex_module ''B'' ''bbbbbbbb'' @ ex_module ''A'' ''aaaa'' \<and>
   map_behaviour fst (ReadScriptModules (ex_stream ex_modules_AB) kScriptModulesSvgVersion_36200
                        ex_pp 2 (ex_rdata {})) = Defined None \<and>
   map_behaviour fst (ReadScriptModules (ex_stream ex_modules_BA) kScriptModulesSvgVersion_36200
                        ex_pp 2 (ex_rdata {}))
     = Defined (new_SavegameError kSvgErr_GameContentAssertion
                  (FromFormat ''Mismatching number of %s, %s #%u (game: %u, save: %u).''
                     [ArgS ''script module data'', ArgS ''module'', ArgU 0, ArgU 4, ArgU 8]))"
  by code_simp

end
